theory Spec2Isabelle
  imports Main "HOL-Library.Word"
begin

section \<open>Python values\<close>

text \<open>
  A Python \<open>str\<close> is a sequence of Unicode code points; a code point is a natural
  number.  \<open>str\<close> turns an ASCII literal into such a sequence.  Bytes are 8-bit words.
\<close>

type_synonym pystr = "nat list"
type_synonym byte = "8 word"

definition str :: "string \<Rightarrow> pystr" where
  "str cs = map of_char cs"

text \<open>
  The objects the program handles: what \<open>json.loads\<close> returns and what the session
  dictionaries hold.  A dictionary is an association list in insertion order.  A float
  is kept as a decimal literal (sign, digits, decimal exponent): no float arithmetic
  is carried out on it.
\<close>

datatype pyobj =
    PyNone
  | PyBool bool
  | PyInt int
  | PyFloat bool nat int
  | PyNaN
  | PyInf bool
  | PyStr pystr
  | PyList "pyobj list"
  | PyDict "(pystr \<times> pyobj) list"

type_synonym pydict = "(pystr \<times> pyobj) list"

text \<open>
  Exceptions (all of them subclasses of \<open>Exception\<close>).  \<open>ValueError\<close> and
  \<open>RuntimeError\<close> are raised by the program itself with the message shown in the
  source; the others come from the interpreter, a library, a service or the operating
  system and carry the message these produce.  \<open>exn_str\<close> is \<open>str(e)\<close>.
\<close>

datatype exn =
    ValueError pystr
  | RuntimeError pystr
  | TypeError pystr
  | AttributeError pystr
  | UnboundLocalError pystr
  | UnicodeEncodeError pystr
  | FileNotFoundError pystr
  | External pystr

fun exn_str :: "exn \<Rightarrow> pystr" where
  "exn_str (ValueError m) = m"
| "exn_str (RuntimeError m) = m"
| "exn_str (TypeError m) = m"
| "exn_str (AttributeError m) = m"
| "exn_str (UnboundLocalError m) = m"
| "exn_str (UnicodeEncodeError m) = m"
| "exn_str (FileNotFoundError m) = m"
| "exn_str (External m) = m"

text \<open>Sequencing of computations that may raise: the first exception wins.\<close>

definition bind :: "exn + 'a \<Rightarrow> ('a \<Rightarrow> exn + 'b) \<Rightarrow> exn + 'b" where
  "bind r f = (case r of Inl e \<Rightarrow> Inl e | Inr x \<Rightarrow> f x)"

subsection \<open>Operations of the interpreter on these values\<close>

definition startswith :: "pystr \<Rightarrow> pystr \<Rightarrow> bool" where
  "startswith s p = (take (length p) s = p)"

text \<open>\<open>p in s\<close> on two strings: \<open>p\<close> occurs in \<open>s\<close> as a contiguous substring.\<close>

fun is_infix :: "pystr \<Rightarrow> pystr \<Rightarrow> bool" where
  "is_infix p [] = (p = [])"
| "is_infix p (c # cs) = (startswith (c # cs) p \<or> is_infix p cs)"

text \<open>\<open>bool(x)\<close>.  A float literal is false when the double it rounds to is zero.\<close>

definition rounds_to_zero :: "nat \<Rightarrow> int \<Rightarrow> bool" where
  "rounds_to_zero m e = (m = 0 \<or> (e < 0 \<and> m * 2 ^ 1075 \<le> 10 ^ nat (- e)))"

fun py_truthy :: "pyobj \<Rightarrow> bool" where
  "py_truthy PyNone = False"
| "py_truthy (PyBool b) = b"
| "py_truthy (PyInt i) = (i \<noteq> 0)"
| "py_truthy (PyFloat neg m e) = (\<not> rounds_to_zero m e)"
| "py_truthy PyNaN = True"
| "py_truthy (PyInf neg) = True"
| "py_truthy (PyStr s) = (s \<noteq> [])"
| "py_truthy (PyList xs) = (xs \<noteq> [])"
| "py_truthy (PyDict d) = (d \<noteq> [])"

text \<open>
  The wording of the interpreter's own error messages differs between Python versions;
  it is a parameter \<open>wording\<close>, from the kind of complaint and the offending object
  to the text.
\<close>

datatype complaint = NotIterable | NoAttributeGet | JoinNeedsIterable | JoinItemNotStr nat
  | NotEncodable | NoSuchFile | Unbound

type_synonym wording = "complaint \<Rightarrow> pyobj \<Rightarrow> pystr"

text \<open>\<open>field in x\<close>: key test on a dictionary, element test on a list, substring test on
  a string, \<open>TypeError\<close> on anything else.\<close>

fun py_contains :: "wording \<Rightarrow> pystr \<Rightarrow> pyobj \<Rightarrow> exn + bool" where
  "py_contains wd f (PyDict d) = Inr (f \<in> set (map fst d))"
| "py_contains wd f (PyList xs) = Inr (PyStr f \<in> set xs)"
| "py_contains wd f (PyStr s) = Inr (is_infix f s)"
| "py_contains wd f x = Inl (TypeError (wd NotIterable x))"

text \<open>\<open>all(field in x for field in fields)\<close>: stops at the first field that is absent,
  and at the first test that raises.\<close>

fun all_in :: "wording \<Rightarrow> pystr list \<Rightarrow> pyobj \<Rightarrow> exn + bool" where
  "all_in wd [] x = Inr True"
| "all_in wd (f # fs) x =
     (case py_contains wd f x of
        Inl e \<Rightarrow> Inl e
      | Inr b \<Rightarrow> if b then all_in wd fs x else Inr False)"

text \<open>\<open>x.get(key, default)\<close>: only a dictionary has the method.\<close>

fun py_get :: "wording \<Rightarrow> pyobj \<Rightarrow> pystr \<Rightarrow> pyobj \<Rightarrow> exn + pyobj" where
  "py_get wd (PyDict d) k dflt = Inr (case map_of d k of None \<Rightarrow> dflt | Some v \<Rightarrow> v)"
| "py_get wd x k dflt = Inl (AttributeError (wd NoAttributeGet x))"

text \<open>\<open>sep.join(x)\<close>: the items of the iterable \<open>x\<close> must all be strings.  A string
  iterates over its characters, a dictionary over its keys.\<close>

fun join_strs :: "pystr \<Rightarrow> pystr list \<Rightarrow> pystr" where
  "join_strs sep [] = []"
| "join_strs sep [s] = s"
| "join_strs sep (s # t # ss) = s @ sep @ join_strs sep (t # ss)"

fun str_items :: "wording \<Rightarrow> nat \<Rightarrow> pyobj list \<Rightarrow> exn + pystr list" where
  "str_items wd i [] = Inr []"
| "str_items wd i (PyStr s # xs) = bind (str_items wd (Suc i) xs) (\<lambda>ss. Inr (s # ss))"
| "str_items wd i (x # xs) = Inl (TypeError (wd (JoinItemNotStr i) x))"

fun py_join :: "wording \<Rightarrow> pystr \<Rightarrow> pyobj \<Rightarrow> exn + pystr" where
  "py_join wd sep (PyList xs) = bind (str_items wd 0 xs) (\<lambda>ss. Inr (join_strs sep ss))"
| "py_join wd sep (PyStr s) = Inr (join_strs sep (map (\<lambda>c. [c]) s))"
| "py_join wd sep (PyDict d) = Inr (join_strs sep (map fst d))"
| "py_join wd sep x = Inl (TypeError (wd JoinNeedsIterable x))"

text \<open>\<open>d[k] = v\<close> on a dictionary: an existing key keeps its place.\<close>

fun dict_set :: "pydict \<Rightarrow> pystr \<Rightarrow> pyobj \<Rightarrow> pydict" where
  "dict_set [] k v = [(k, v)]"
| "dict_set ((k', v') # d) k v = (if k' = k then (k, v) # d else (k', v') # dict_set d k v)"

text \<open>\<open>d.update(u)\<close>.\<close>

definition dict_update :: "pydict \<Rightarrow> pydict \<Rightarrow> pydict" where
  "dict_update d u = fold (\<lambda>(k, v) acc. dict_set acc k v) u d"

section \<open>The regular expression of the import adapter\<close>

text \<open>
  \<open>re.search(r'\{.*\}', response, re.DOTALL)\<close>.  With \<open>DOTALL\<close> the dot matches every
  character.  The star is greedy: at each character \<open>.*\<close> first tries to go on, and
  only when the rest cannot be matched does it stop and let \<open>\}\<close> match here.
  \<open>dotstar_close\<close> is \<open>.*\}\<close> at the start of the text, \<open>match_here\<close> the whole
  pattern at the start of the text, and \<open>re_search\<close> tries the start positions from
  left to right.  Code point 123 is the opening brace, 125 the closing one.
\<close>

fun dotstar_close :: "pystr \<Rightarrow> pystr option" where
  "dotstar_close [] = None"
| "dotstar_close (c # cs) =
     (case dotstar_close cs of
        Some m \<Rightarrow> Some (c # m)
      | None \<Rightarrow> if c = 125 then Some [c] else None)"

fun match_here :: "pystr \<Rightarrow> pystr option" where
  "match_here [] = None"
| "match_here (c # cs) = (if c = 123 then map_option ((#) c) (dotstar_close cs) else None)"

fun re_search :: "pystr \<Rightarrow> pystr option" where
  "re_search [] = None"
| "re_search (c # cs) =
     (case match_here (c # cs) of
        Some m \<Rightarrow> Some m
      | None \<Rightarrow> re_search cs)"

section \<open>The platform and the world\<close>

text \<open>
  What lies outside the program is a parameter: the prompt templating and the hosted
  model of the chain \<open>prompt | init_groq_chain() | StrOutputParser()\<close>, the JSON
  parser, the temporary directory and path joining, the line separator \<open>os.linesep\<close>,
  the PDF and DOCX writers, failures of file operations, and \<open>str.upper\<close>.
  A chat prompt is a list of (role, text) pairs.
\<close>

type_synonym messages = "(pystr \<times> pystr) list"

datatype io_op = OpenWrite pystr | WriteText pystr | OpenRead pystr | Remove pystr

text \<open>What an external writer did at the output path: the bytes it left there, if any,
  and the exception it raised, if any.\<close>

record produced =
  written :: "byte list option"
  raised :: "exn option"

record platform =
  wording :: wording
  prompt_format :: "messages \<Rightarrow> pydict \<Rightarrow> exn + messages"
  endpoint :: "messages \<Rightarrow> exn + pystr"
  json_loads :: "pystr \<Rightarrow> exn + pyobj"
  gettempdir :: "exn + pystr"
  path_join :: "pystr \<Rightarrow> pystr \<Rightarrow> pystr"
  linesep :: pystr
  pdf_config :: bool
  pdfkit_from_string :: "pystr \<Rightarrow> pystr \<Rightarrow> produced"
  docx_save :: "pystr \<Rightarrow> pystr \<Rightarrow> produced"
  io_error :: "io_op \<Rightarrow> exn option"
  str_upper :: "pystr \<Rightarrow> pystr"

text \<open>
  The state the program changes: \<open>st.session_state.resume_data\<close>, the regular files
  on disk (path to contents), and the messages shown by \<open>st.error\<close> and
  \<open>st.success\<close>, oldest first.
\<close>

datatype ui_msg = StError pystr | StSuccess pystr

record world =
  resume_data :: pydict
  files :: "pystr \<Rightarrow> byte list option"
  ui :: "ui_msg list"

definition st_error :: "pystr \<Rightarrow> world \<Rightarrow> world" where
  "st_error m w = w\<lparr>ui := ui w @ [StError m]\<rparr>"

definition st_success :: "pystr \<Rightarrow> world \<Rightarrow> world" where
  "st_success m w = w\<lparr>ui := ui w @ [StSuccess m]\<rparr>"

text \<open>\<open>chain.invoke(context)\<close>: format the prompt, send it, return the text.\<close>

definition chain_invoke :: "platform \<Rightarrow> messages \<Rightarrow> pydict \<Rightarrow> exn + pystr" where
  "chain_invoke pf msgs context = bind (prompt_format pf msgs context) (endpoint pf)"

section \<open>linkedin\_import\<close>

definition LINKEDIN_PREFIX :: pystr where
  "LINKEDIN_PREFIX = str ''https://www.linkedin.com/in/''"

definition system_prompt :: pystr where
  "system_prompt =
     str ''Extract professional details from LinkedIn profile in strict JSON format: '' @ [10] @
     str ''{{'' @ [10] @
     str ''    \"name\": \"Full Name\",'' @ [10] @
     str ''    \"experience\": [\"Position1 at Company1\", \"Position2 at Company2\"],'' @ [10] @
     str ''    \"education\": [\"Degree1 at School1\", \"Degree2 at School2\"],'' @ [10] @
     str ''    \"skills\": [\"Skill1\", \"Skill2\", \"Skill3\"]'' @ [10] @
     str ''}}''"

definition required_fields :: "pystr list" where
  "required_fields = [str ''name'', str ''experience'', str ''education'', str ''skills'']"

text \<open>Lines 81 to 83: the regular-expression scan of the response.\<close>

definition extract_json :: "pystr \<Rightarrow> exn + pystr" where
  "extract_json response =
     (case re_search response of
        None \<Rightarrow> Inl (ValueError (str ''No valid JSON found in response''))
      | Some json_str \<Rightarrow> Inr json_str)"

text \<open>Lines 88 to 92: the check of the required fields.\<close>

definition validate_fields :: "wording \<Rightarrow> pyobj \<Rightarrow> exn + pyobj" where
  "validate_fields wd parsed_data =
     bind (all_in wd required_fields parsed_data)
       (\<lambda>ok. if \<not> ok then Inl (ValueError (str ''Missing required fields in parsed data''))
             else Inr parsed_data)"

text \<open>Lines 72 to 75: the two messages of the prompt.\<close>

definition import_prompt :: messages where
  "import_prompt = [(str ''system'', system_prompt), (str ''human'', str ''Profile URL: {url}'')]"

text \<open>The body of the \<open>try\<close> block.\<close>

definition linkedin_import_try :: "platform \<Rightarrow> pystr \<Rightarrow> exn + pyobj" where
  "linkedin_import_try pf url =
     (if \<not> startswith url LINKEDIN_PREFIX
      then Inl (ValueError (str ''Invalid LinkedIn profile URL format''))
      else
        bind (chain_invoke pf import_prompt [(str ''url'', PyStr url)])
          (\<lambda>response.
             bind (extract_json response)
               (\<lambda>json_str.
                  bind (json_loads pf json_str) (validate_fields (wording pf)))))"

text \<open>
  The whole function: \<open>except Exception\<close> turns every exception of the block into a
  message and the empty dictionary.  The result is \<open>Inr\<close> of the returned object;
  \<open>Inl\<close> would be an exception leaving the function.
\<close>

definition linkedin_import :: "platform \<Rightarrow> pystr \<Rightarrow> world \<Rightarrow> (exn + pyobj) \<times> world" where
  "linkedin_import pf url w =
     (case linkedin_import_try pf url of
        Inr parsed_data \<Rightarrow> (Inr parsed_data, w)
      | Inl e \<Rightarrow> (Inr (PyDict []), st_error (str ''LinkedIn import error: '' @ exn_str e) w))"

section \<open>generate\_localized\_content\<close>

definition LANGUAGES :: "pystr list" where
  "LANGUAGES = [str ''English'', str ''Spanish'', str ''French'', str ''German'', str ''Chinese'']"

text \<open>The f-string of line 102; code point 10 is the newline.\<close>

definition localized_prompt :: "pystr \<Rightarrow> pystr \<Rightarrow> pystr" where
  "localized_prompt prompt_template language =
     prompt_template @ str '' '' @ [10] @ str ''Respond in '' @ language @ str '' language''"

definition generate_localized_content ::
  "platform \<Rightarrow> pystr \<Rightarrow> pystr \<Rightarrow> pydict \<Rightarrow> exn + pystr" where
  "generate_localized_content pf prompt_template language context =
     (let full_context = dict_set context (str ''language'') (PyStr language)
      in chain_invoke pf [(str ''human'', localized_prompt prompt_template language)] full_context)"

section \<open>The Import Profile action of main\<close>

text \<open>The dictionary literal of lines 199 to 204, its values computed in order.\<close>

definition profile_update :: "wording \<Rightarrow> pyobj \<Rightarrow> exn + pydict" where
  "profile_update wd imported_data =
     bind (py_get wd imported_data (str ''name'') (PyStr [])) (\<lambda>name.
     bind (bind (py_get wd imported_data (str ''experience'') (PyList [])) (py_join wd [10]))
       (\<lambda>experience.
     bind (bind (py_get wd imported_data (str ''education'') (PyList [])) (py_join wd [10]))
       (\<lambda>education.
     bind (bind (py_get wd imported_data (str ''skills'') (PyList [])) (py_join wd (str '', '')))
       (\<lambda>skills.
     Inr [(str ''name'', name), (str ''experience'', PyStr experience),
          (str ''education'', PyStr education), (str ''skills'', PyStr skills)]))))"

definition import_failed_msg :: "exn \<Rightarrow> pystr" where
  "import_failed_msg e = str ''Failed to process LinkedIn profile: '' @ exn_str e"

definition import_ok_msg :: pystr where
  "import_ok_msg = str ''Profile imported successfully!''"

text \<open>Lines 195 to 207, run when the button is pressed.\<close>

definition import_profile :: "platform \<Rightarrow> pystr \<Rightarrow> world \<Rightarrow> world" where
  "import_profile pf linkedin_url w =
     (if linkedin_url = [] then w
      else
        (case linkedin_import pf linkedin_url w of
           (Inl e, w1) \<Rightarrow> st_error (import_failed_msg e) w1
         | (Inr imported_data, w1) \<Rightarrow>
             (if py_truthy imported_data then
                (case profile_update (wording pf) imported_data of
                   Inl e \<Rightarrow> st_error (import_failed_msg e) w1
                 | Inr u \<Rightarrow>
                     st_success import_ok_msg
                       (w1\<lparr>resume_data := dict_update (resume_data w1) u\<rparr>))
              else st_success import_ok_msg w1)))"

section \<open>create\_download\_link\<close>

subsection \<open>Text files: newline translation and UTF-8\<close>

text \<open>
  \<open>open(path, "w", encoding="utf-8")\<close> leaves \<open>newline\<close> at its default: on writing,
  every newline character (code point 10) is replaced by \<open>os.linesep\<close>.
\<close>

definition translate_newlines :: "pystr \<Rightarrow> pystr \<Rightarrow> pystr" where
  "translate_newlines sep s = concat (map (\<lambda>c. if c = 10 then sep else [c]) s)"

text \<open>
  UTF-8 of one code point.  The surrogates D800 to DFFF cannot be encoded
  (\<open>UnicodeEncodeError\<close>); a number from 110000 on is no code point of a \<open>str\<close>.
\<close>

definition utf8_char :: "nat \<Rightarrow> byte list option" where
  "utf8_char c =
     (if c < 0x80 then Some [of_nat c]
      else if c < 0x800 then Some [of_nat (0xC0 + c div 64), of_nat (0x80 + c mod 64)]
      else if 0xD800 \<le> c \<and> c \<le> 0xDFFF then None
      else if c < 0x10000 then
        Some [of_nat (0xE0 + c div 4096), of_nat (0x80 + c div 64 mod 64),
              of_nat (0x80 + c mod 64)]
      else if c < 0x110000 then
        Some [of_nat (0xF0 + c div 262144), of_nat (0x80 + c div 4096 mod 64),
              of_nat (0x80 + c div 64 mod 64), of_nat (0x80 + c mod 64)]
      else None)"

fun utf8_encode :: "pystr \<Rightarrow> byte list option" where
  "utf8_encode [] = Some []"
| "utf8_encode (c # cs) =
     (case utf8_char c of
        None \<Rightarrow> None
      | Some bs \<Rightarrow> map_option ((@) bs) (utf8_encode cs))"

subsection \<open>Base64\<close>




subsection \<open>The steps of the function\<close>

text \<open>
  The \<open>else\<close> branch, lines 151 and 152.  Opening for writing creates the file or
  empties it; the text is encoded when it is written; a failure after the opening
  leaves the empty file behind.
\<close>

definition write_text :: "platform \<Rightarrow> pystr \<Rightarrow> pystr \<Rightarrow> world \<Rightarrow> (exn + unit) \<times> world" where
  "write_text pf path content w =
     (case io_error pf (OpenWrite path) of
        Some e \<Rightarrow> (Inl e, w)
      | None \<Rightarrow>
          (let w1 = w\<lparr>files := (files w)(path \<mapsto> [])\<rparr>
           in case utf8_encode (translate_newlines (linesep pf) content) of
                None \<Rightarrow> (Inl (UnicodeEncodeError (wording pf NotEncodable (PyStr content))), w1)
              | Some bs \<Rightarrow>
                  (case io_error pf (WriteText path) of
                     Some e \<Rightarrow> (Inl e, w1)
                   | None \<Rightarrow> (Inr (), w1\<lparr>files := (files w1)(path \<mapsto> bs)\<rparr>))))"

text \<open>An external writer (the PDF renderer, the DOCX library) ran on the path.\<close>

definition store_produced :: "produced \<Rightarrow> pystr \<Rightarrow> world \<Rightarrow> (exn + unit) \<times> world" where
  "store_produced p path w =
     (let w1 = (case written p of
                  None \<Rightarrow> w
                | Some bs \<Rightarrow> w\<lparr>files := (files w)(path \<mapsto> bs)\<rparr>)
      in case raised p of Some e \<Rightarrow> (Inl e, w1) | None \<Rightarrow> (Inr (), w1))"

text \<open>Lines 142 to 152: the choice of the writer by the format tag.\<close>

definition write_export ::
  "platform \<Rightarrow> pystr \<Rightarrow> pystr \<Rightarrow> pystr \<Rightarrow> world \<Rightarrow> (exn + unit) \<times> world" where
  "write_export pf content format_type temp_path w =
     (if format_type = str ''pdf'' then
        (if \<not> pdf_config pf
         then (Inl (RuntimeError (str ''PDF export requires wkhtmltopdf installation'')), w)
         else store_produced (pdfkit_from_string pf content temp_path) temp_path w)
      else if format_type = str ''docx'' then
        store_produced (docx_save pf content temp_path) temp_path w
      else write_text pf temp_path content w)"

text \<open>Lines 155 and 156: the file is read back in binary mode.\<close>

definition read_back :: "platform \<Rightarrow> pystr \<Rightarrow> world \<Rightarrow> exn + byte list" where
  "read_back pf path w =
     (case io_error pf (OpenRead path) of
        Some e \<Rightarrow> Inl e
      | None \<Rightarrow>
          (case files w path of
             None \<Rightarrow> Inl (FileNotFoundError (wording pf NoSuchFile (PyStr path)))
           | Some data \<Rightarrow> Inr data))"


text \<open>Lines 142 to 156: the file is written and read back; the result is \<open>data\<close>.\<close>

definition export_data ::
  "platform \<Rightarrow> pystr \<Rightarrow> pystr \<Rightarrow> pystr \<Rightarrow> world \<Rightarrow> (exn + byte list) \<times> world" where
  "export_data pf content format_type temp_path w =
     (case write_export pf content format_type temp_path w of
        (Inl e, w1) \<Rightarrow> (Inl e, w1)
      | (Inr u, w1) \<Rightarrow> (read_back pf temp_path w1, w1))"




section \<open>Example platforms\<close>

text \<open>
  Concrete platforms on which the program can be run: a reader for JSON text in the
  grammar that \<open>json.loads\<close> accepts, a templating that knows \<open>{{\<close>, \<open>}}\<close> and
  \<open>{name}\<close> with string values, a POSIX-like temporary directory, and an endpoint that
  answers every prompt with a given text.
\<close>

subsection \<open>Reading JSON\<close>

definition is_ws :: "nat \<Rightarrow> bool" where
  "is_ws c = (c = 32 \<or> c = 9 \<or> c = 10 \<or> c = 13)"

definition skip_ws :: "pystr \<Rightarrow> pystr" where
  "skip_ws s = dropWhile is_ws s"

definition is_digit :: "nat \<Rightarrow> bool" where
  "is_digit c = (48 \<le> c \<and> c \<le> 57)"

definition digits_val :: "pystr \<Rightarrow> nat" where
  "digits_val ds = foldl (\<lambda>a c. a * 10 + (c - 48)) 0 ds"

definition hex_digit :: "nat \<Rightarrow> nat option" where
  "hex_digit c =
     (if 48 \<le> c \<and> c \<le> 57 then Some (c - 48)
      else if 97 \<le> c \<and> c \<le> 102 then Some (c - 87)
      else if 65 \<le> c \<and> c \<le> 70 then Some (c - 55)
      else None)"

fun hex4 :: "pystr \<Rightarrow> nat option" where
  "hex4 [a, b, c, d] =
     (case (hex_digit a, hex_digit b, hex_digit c, hex_digit d) of
        (Some x, Some y, Some z, Some u) \<Rightarrow> Some (((x * 16 + y) * 16 + z) * 16 + u)
      | _ \<Rightarrow> None)"
| "hex4 s = None"

definition simple_escape :: "nat \<Rightarrow> nat option" where
  "simple_escape e =
     (if e = 34 \<or> e = 92 \<or> e = 47 then Some e
      else if e = 98 then Some 8
      else if e = 102 then Some 12
      else if e = 110 then Some 10
      else if e = 114 then Some 13
      else if e = 116 then Some 9
      else None)"

definition cons_char :: "nat \<Rightarrow> (pystr \<times> pystr) option \<Rightarrow> (pystr \<times> pystr) option" where
  "cons_char c r = map_option (\<lambda>(t, rest). (c # t, rest)) r"

text \<open>A string literal after its opening quote: the decoded text and what follows the
  closing quote.  Code point 34 is the quote, 92 the backslash, 117 the letter u.\<close>

fun scanstring :: "pystr \<Rightarrow> (pystr \<times> pystr) option" where
  "scanstring [] = None"
| "scanstring (c # cs) =
     (if c = 34 then Some ([], cs)
      else if c = 92 then
        (case cs of
           [] \<Rightarrow> None
         | e # r \<Rightarrow>
             if e = 117 then
               (case hex4 (take 4 r) of
                  None \<Rightarrow> None
                | Some u \<Rightarrow>
                    if 0xD800 \<le> u \<and> u \<le> 0xDBFF \<and> 10 < length r \<and> take 2 (drop 4 r) = [92, 117]
                    then
                      (case hex4 (take 4 (drop 6 r)) of
                         None \<Rightarrow> None
                       | Some u2 \<Rightarrow>
                           if 0xDC00 \<le> u2 \<and> u2 \<le> 0xDFFF
                           then cons_char (0x10000 + (u - 0xD800) * 1024 + (u2 - 0xDC00))
                                  (scanstring (drop 10 r))
                           else cons_char u (scanstring (drop 4 r)))
                    else cons_char u (scanstring (drop 4 r)))
             else
               (case simple_escape e of
                  None \<Rightarrow> None
                | Some ch \<Rightarrow> cons_char ch (scanstring r)))
      else if c < 32 then None
      else cons_char c (scanstring cs))"

text \<open>A number: an integer part, an optional fraction and an optional exponent.  Without
  fraction and exponent it is an \<open>int\<close>, otherwise a float.\<close>

definition scan_fraction :: "pystr \<Rightarrow> pystr \<times> pystr" where
  "scan_fraction s =
     (case s of
        [] \<Rightarrow> ([], s)
      | c # r \<Rightarrow>
          if c = 46 \<and> takeWhile is_digit r \<noteq> []
          then (takeWhile is_digit r, dropWhile is_digit r)
          else ([], s))"

definition scan_exponent :: "pystr \<Rightarrow> int option \<times> pystr" where
  "scan_exponent s =
     (case s of
        [] \<Rightarrow> (None, s)
      | c # r \<Rightarrow>
          if c = 101 \<or> c = 69 then
            (let neg = (r \<noteq> [] \<and> hd r = 45);
                 r1 = (if r \<noteq> [] \<and> (hd r = 43 \<or> hd r = 45) then tl r else r)
             in if takeWhile is_digit r1 = [] then (None, s)
                else (Some ((if neg then - 1 else 1) * int (digits_val (takeWhile is_digit r1))),
                      dropWhile is_digit r1))
          else (None, s))"

definition scan_number :: "pystr \<Rightarrow> (pyobj \<times> pystr) option" where
  "scan_number s =
     (let neg = (s \<noteq> [] \<and> hd s = 45);
          s1 = (if neg then tl s else s)
      in case s1 of
           [] \<Rightarrow> None
         | d # r \<Rightarrow>
             if \<not> is_digit d then None
             else
               (let ip = (if d = 48 then [d] else takeWhile is_digit s1);
                    (frac, s3) = scan_fraction (drop (length ip) s1);
                    (ex, s4) = scan_exponent s3
                in if frac = [] \<and> ex = None
                   then Some (PyInt ((if neg then - 1 else 1) * int (digits_val ip)), s4)
                   else Some (PyFloat neg (digits_val (ip @ frac))
                                (case_option 0 id ex - int (length frac)), s4)))"

text \<open>
  Values, the members of an object (from the text after the opening quote of a key)
  and the items of an array.  The first argument bounds the number of nested calls;
  \<open>read_json\<close> starts it above the length of the text.  A key that occurs twice keeps
  its last value.  Code points: 123 and 125 the braces, 91 and 93 the brackets, 58 the
  colon, 44 the comma.
\<close>

fun parse_value :: "nat \<Rightarrow> pystr \<Rightarrow> (pyobj \<times> pystr) option"
  and parse_pairs :: "nat \<Rightarrow> pydict \<Rightarrow> pystr \<Rightarrow> (pyobj \<times> pystr) option"
  and parse_items :: "nat \<Rightarrow> pyobj list \<Rightarrow> pystr \<Rightarrow> (pyobj \<times> pystr) option" where
  "parse_value 0 s = None"
| "parse_value (Suc n) s =
     (case s of
        [] \<Rightarrow> None
      | c # r \<Rightarrow>
          if c = 34 then map_option (\<lambda>(t, rest). (PyStr t, rest)) (scanstring r)
          else if c = 123 then
            (case skip_ws r of
               [] \<Rightarrow> None
             | c1 # r1 \<Rightarrow>
                 if c1 = 125 then Some (PyDict [], r1)
                 else if c1 = 34 then parse_pairs n [] r1
                 else None)
          else if c = 91 then
            (case skip_ws r of
               [] \<Rightarrow> None
             | c1 # r1 \<Rightarrow>
                 if c1 = 93 then Some (PyList [], r1)
                 else parse_items n [] (c1 # r1))
          else if startswith s (str ''null'') then Some (PyNone, drop 4 s)
          else if startswith s (str ''true'') then Some (PyBool True, drop 4 s)
          else if startswith s (str ''false'') then Some (PyBool False, drop 5 s)
          else
            (case scan_number s of
               Some x \<Rightarrow> Some x
             | None \<Rightarrow>
                 if startswith s (str ''NaN'') then Some (PyNaN, drop 3 s)
                 else if startswith s (str ''Infinity'') then Some (PyInf False, drop 8 s)
                 else if startswith s (str ''-Infinity'') then Some (PyInf True, drop 9 s)
                 else None))"
| "parse_pairs 0 acc s = None"
| "parse_pairs (Suc n) acc s =
     (case scanstring s of
        None \<Rightarrow> None
      | Some (key, r) \<Rightarrow>
          (case skip_ws r of
             [] \<Rightarrow> None
           | c # r1 \<Rightarrow>
               if c \<noteq> 58 then None
               else
                 (case parse_value n (skip_ws r1) of
                    None \<Rightarrow> None
                  | Some (v, r2) \<Rightarrow>
                      (case skip_ws r2 of
                         [] \<Rightarrow> None
                       | c2 # r3 \<Rightarrow>
                           if c2 = 125 then Some (PyDict (dict_set acc key v), r3)
                           else if c2 = 44 then
                             (case skip_ws r3 of
                                [] \<Rightarrow> None
                              | c3 # r4 \<Rightarrow>
                                  if c3 = 34 then parse_pairs n (dict_set acc key v) r4
                                  else None)
                           else None))))"
| "parse_items 0 acc s = None"
| "parse_items (Suc n) acc s =
     (case parse_value n s of
        None \<Rightarrow> None
      | Some (v, r) \<Rightarrow>
          (case skip_ws r of
             [] \<Rightarrow> None
           | c # r1 \<Rightarrow>
               if c = 93 then Some (PyList (acc @ [v]), r1)
               else if c = 44 then parse_items n (acc @ [v]) (skip_ws r1)
               else None))"

text \<open>The whole text must be one value between optional whitespace.\<close>

definition read_json :: "pystr \<Rightarrow> pyobj option" where
  "read_json s =
     (case parse_value (Suc (length s)) (skip_ws s) of
        None \<Rightarrow> None
      | Some (v, rest) \<Rightarrow> if skip_ws rest = [] then Some v else None)"

subsection \<open>Templating\<close>

text \<open>\<open>{{\<close> and \<open>}}\<close> stand for one brace, \<open>{name}\<close> for the string under \<open>name\<close>; a
  lone brace, a missing name and a value that is no string are errors.\<close>

fun format_template :: "pydict \<Rightarrow> pystr \<Rightarrow> exn + pystr" where
  "format_template ctx [] = Inr []"
| "format_template ctx (c # cs) =
     (if c = 123 then
        (if cs \<noteq> [] \<and> hd cs = 123
         then bind (format_template ctx (tl cs)) (\<lambda>t. Inr (123 # t))
         else if 125 \<notin> set cs then Inl (ValueError (str ''unmatched brace''))
         else
           (case map_of ctx (takeWhile (\<lambda>x. x \<noteq> 125) cs) of
              Some (PyStr v) \<Rightarrow>
                bind (format_template ctx (drop (Suc (length (takeWhile (\<lambda>x. x \<noteq> 125) cs))) cs))
                  (\<lambda>t. Inr (v @ t))
            | _ \<Rightarrow> Inl (External (str ''KeyError''))))
      else if c = 125 then
        (if cs \<noteq> [] \<and> hd cs = 125
         then bind (format_template ctx (tl cs)) (\<lambda>t. Inr (125 # t))
         else Inl (ValueError (str ''unmatched brace'')))
      else bind (format_template ctx cs) (\<lambda>t. Inr (c # t)))"

fun format_messages :: "messages \<Rightarrow> pydict \<Rightarrow> exn + messages" where
  "format_messages [] ctx = Inr []"
| "format_messages ((role, t) # ms) ctx =
     bind (format_template ctx t)
       (\<lambda>text. bind (format_messages ms ctx) (\<lambda>rest. Inr ((role, text) # rest)))"

subsection \<open>The platforms\<close>

definition ascii_upper :: "pystr \<Rightarrow> pystr" where
  "ascii_upper s = map (\<lambda>c. if 97 \<le> c \<and> c \<le> 122 then c - 32 else c) s"

text \<open>A POSIX machine without the PDF renderer whose endpoint answers \<open>response\<close>.\<close>

definition example_platform :: "pystr \<Rightarrow> platform" where
  "example_platform response =
     \<lparr> wording = (\<lambda>c x. str ''interpreter message''),
       prompt_format = format_messages,
       endpoint = (\<lambda>msgs. Inr response),
       json_loads = (\<lambda>s. case read_json s of
                            None \<Rightarrow> Inl (External (str ''JSONDecodeError''))
                          | Some v \<Rightarrow> Inr v),
       gettempdir = Inr (str ''/tmp''),
       path_join = (\<lambda>dir name. dir @ str ''/'' @ name),
       linesep = [10],
       pdf_config = False,
       pdfkit_from_string = (\<lambda>content path. \<lparr>written = None, raised = Some (External (str ''OSError''))\<rparr>),
       docx_save = (\<lambda>content path. \<lparr>written = None, raised = Some (External (str ''OSError''))\<rparr>),
       io_error = (\<lambda>op. None),
       str_upper = ascii_upper \<rparr>"

text \<open>A Windows machine: the line separator is carriage return, line feed.\<close>

definition windows_platform :: "pystr \<Rightarrow> platform" where
  "windows_platform response =
     (example_platform response)
       \<lparr> gettempdir := Inr (str ''C:'' @ [92] @ str ''Temp''),
         path_join := (\<lambda>dir name. dir @ [92] @ name),
         linesep := [13, 10] \<rparr>"


definition empty_world :: world where
  "empty_world = \<lparr> resume_data = [], files = (\<lambda>path. None), ui = [] \<rparr>"

subsection \<open>Example inputs\<close>

definition demo_url :: pystr where
  "demo_url = str ''https://www.linkedin.com/in/ada''"

definition bad_url :: pystr where
  "bad_url = str ''http://example.com/in/ada''"

definition two_blocks_response :: pystr where
  "two_blocks_response = str ''x{a} and {b}y''"

definition complete_profile_json :: pystr where
  "complete_profile_json =
     str ''{\"name\": \"Ada\", \"experience\": [\"Dev\"], \"education\": [], \"skills\": [\"SQL\"]}''"

definition complete_profile :: pydict where
  "complete_profile =
     [(str ''name'', PyStr (str ''Ada'')),
      (str ''experience'', PyList [PyStr (str ''Dev'')]),
      (str ''education'', PyList []),
      (str ''skills'', PyList [PyStr (str ''SQL'')])]"

definition stray_brace_response :: pystr where
  "stray_brace_response = complete_profile_json @ str '' }''"

definition framed_response :: pystr where
  "framed_response = str ''Profile: '' @ complete_profile_json @ str '' Done.''"

definition partial_profile_json :: pystr where
  "partial_profile_json = str ''{\"name\": \"Ada\"}''"

definition null_skills_json :: pystr where
  "null_skills_json =
     str ''{\"name\": \"Ada\", \"experience\": [], \"education\": [], \"skills\": null}''"

definition null_skills_profile :: pydict where
  "null_skills_profile =
     [(str ''name'', PyStr (str ''Ada'')), (str ''experience'', PyList []),
      (str ''education'', PyList []), (str ''skills'', PyNone)]"

definition stored_world :: world where
  "stored_world = empty_world\<lparr>resume_data := [(str ''email'', PyStr (str ''ada@example.org''))]\<rparr>"

definition windows_temp_path :: pystr where
  "windows_temp_path = str ''C:'' @ [92] @ str ''Temp'' @ [92] @ str ''resume.txt''"

section \<open>Properties of the regular-expression scan\<close>

lemma dotstar_close_None: "dotstar_close cs = None \<longleftrightarrow> 125 \<notin> set cs"
  by (induction cs) (auto split: option.splits)

lemma dotstar_close_no_close: "125 \<notin> set cs \<Longrightarrow> dotstar_close cs = None"
  by (simp add: dotstar_close_None)

lemma dotstar_close_Some:
  "dotstar_close cs = Some m \<Longrightarrow> \<exists>post. cs = m @ post \<and> 125 \<notin> set post \<and> m \<noteq> [] \<and> last m = 125"
proof (induction cs arbitrary: m)
  case Nil
  then show ?case by simp
next
  case (Cons c cs)
  show ?case
  proof (cases "dotstar_close cs")
    case None
    with Cons.prems have "c = 125" and "m = [c]" by (auto split: if_splits)
    moreover from None have "125 \<notin> set cs" by (simp add: dotstar_close_None)
    ultimately show ?thesis by simp
  next
    case (Some m')
    with Cons.prems have m: "m = c # m'" by simp
    from Cons.IH [OF Some] obtain post where "cs = m' @ post" "125 \<notin> set post" "m' \<noteq> []" "last m' = 125"
      by blast
    with m show ?thesis by simp
  qed
qed

lemma dotstar_close_complete:
  "125 \<notin> set post \<Longrightarrow> dotstar_close (body @ 125 # post) = Some (body @ [125])"
  by (induction body) (simp_all add: dotstar_close_no_close)

lemma re_search_no_close: "125 \<notin> set s \<Longrightarrow> re_search s = None"
  by (induction s) (simp_all add: dotstar_close_no_close)

lemma match_here_Some:
  assumes "match_here s = Some m"
  shows "\<exists>post. s = m @ post \<and> 125 \<notin> set post \<and> hd m = 123 \<and> last m = 125 \<and> 2 \<le> length m"
proof (cases s)
  case Nil
  with assms show ?thesis by simp
next
  case (Cons c cs)
  with assms obtain m' where c: "c = 123" and d: "dotstar_close cs = Some m'" and m: "m = c # m'"
    by (auto split: if_splits)
  from dotstar_close_Some [OF d] obtain post where "cs = m' @ post" "125 \<notin> set post" "m' \<noteq> []" "last m' = 125"
    by blast
  with Cons c m show ?thesis by (cases m') auto
qed

lemma re_search_Some:
  "re_search s = Some m \<Longrightarrow>
   \<exists>pre post. s = pre @ m @ post \<and> 123 \<notin> set pre \<and> 125 \<notin> set post \<and>
              hd m = 123 \<and> last m = 125 \<and> 2 \<le> length m"
proof (induction s)
  case Nil
  then show ?case by simp
next
  case (Cons c cs)
  show ?case
  proof (cases "match_here (c # cs)")
    case (Some m')
    with Cons.prems have "m' = m" by simp
    with match_here_Some [OF Some] obtain post where
      "c # cs = m @ post" "125 \<notin> set post" "hd m = 123" "last m = 125" "2 \<le> length m" by blast
    then have "c # cs = [] @ m @ post \<and> 123 \<notin> set [] \<and> 125 \<notin> set post \<and>
              hd m = 123 \<and> last m = 125 \<and> 2 \<le> length m" by simp
    then show ?thesis by blast
  next
    case None
    with Cons.prems have r: "re_search cs = Some m" by simp
    have "c \<noteq> 123"
    proof
      assume c: "c = 123"
      with None have "dotstar_close cs = None" by simp
      then have "re_search cs = None" by (simp add: dotstar_close_None re_search_no_close)
      with r show False by simp
    qed
    moreover from Cons.IH [OF r] obtain pre post where
      "cs = pre @ m @ post" "123 \<notin> set pre" "125 \<notin> set post" "hd m = 123" "last m = 125" "2 \<le> length m"
      by blast
    ultimately have "c # cs = (c # pre) @ m @ post \<and> 123 \<notin> set (c # pre) \<and> 125 \<notin> set post \<and>
              hd m = 123 \<and> last m = 125 \<and> 2 \<le> length m" by simp
    then show ?thesis by blast
  qed
qed

lemma re_search_complete:
  assumes "123 \<notin> set pre" and "125 \<notin> set post"
  shows "re_search (pre @ 123 # body @ 125 # post) = Some (123 # body @ [125])"
  using assms(1)
proof (induction pre)
  case Nil
  from assms(2) show ?case by (simp add: dotstar_close_complete)
next
  case (Cons c pre)
  then show ?case by simp
qed

lemma brace_span_shape:
  assumes "hd m = 123" and "last m = 125" and "2 \<le> length m"
  shows "\<exists>body. m = 123 # body @ [125]"
proof (cases m)
  case Nil
  with assms show ?thesis by simp
next
  case (Cons c t)
  with assms have c: "c = 123" and t: "t \<noteq> []" by auto
  with Cons assms have "last t = 125" by simp
  with t have "t = butlast t @ [125]" by (metis append_butlast_last_id)
  with Cons c show ?thesis by blast
qed

lemma re_search_None_iff:
  "re_search s = None \<longleftrightarrow> (\<forall>pre body post. s \<noteq> pre @ 123 # body @ 125 # post)"
proof
  assume "re_search s = None"
  then show "\<forall>pre body post. s \<noteq> pre @ 123 # body @ 125 # post"
  proof (induction s)
    case Nil
    then show ?case by simp
  next
    case (Cons c cs)
    from Cons.prems have mh: "match_here (c # cs) = None" and rs: "re_search cs = None"
      by (auto split: option.splits)
    show ?case
    proof (intro allI notI)
      fix pre body post
      assume eq: "c # cs = pre @ 123 # body @ 125 # post"
      show False
      proof (cases pre)
        case Nil
        with eq have "c = 123" and "cs = body @ 125 # post" by simp_all
        with mh have "dotstar_close (body @ 125 # post) = None" by simp
        then show False by (simp add: dotstar_close_None)
      next
        case (Cons p pre')
        with eq have "cs = pre' @ 123 # body @ 125 # post" by simp
        with Cons.IH [OF rs] show False by blast
      qed
    qed
  qed
next
  assume h: "\<forall>pre body post. s \<noteq> pre @ 123 # body @ 125 # post"
  show "re_search s = None"
  proof (rule ccontr)
    assume "re_search s \<noteq> None"
    then obtain m where "re_search s = Some m" by blast
    from re_search_Some [OF this] obtain pre post where
      s: "s = pre @ m @ post" and m: "hd m = 123" "last m = 125" "2 \<le> length m" by blast
    from brace_span_shape [OF m] obtain body where "m = 123 # body @ [125]" by blast
    with s have "s = pre @ 123 # body @ 125 # post" by simp
    with h show False by blast
  qed
qed


section \<open>Facts about the example platforms\<close>

lemma example_prompt_formats:
  "(case format_messages import_prompt [(str ''url'', PyStr demo_url)] of
      Inl e \<Rightarrow> False
    | Inr p \<Rightarrow> True)"
  by code_simp

lemma example_chain:
  "chain_invoke (example_platform r) import_prompt [(str ''url'', PyStr demo_url)] = Inr r"
  using example_prompt_formats
  by (simp add: chain_invoke_def example_platform_def bind_def split: sum.splits)

lemma example_json_loads:
  "json_loads (example_platform r) s =
     (case read_json s of None \<Rightarrow> Inl (External (str ''JSONDecodeError'')) | Some v \<Rightarrow> Inr v)"
  by (simp add: example_platform_def)

lemma example_wording: "wording (example_platform r) = (\<lambda>c x. str ''interpreter message'')"
  by (simp add: example_platform_def)

lemma demo_url_ok: "startswith demo_url LINKEDIN_PREFIX"
  by code_simp

lemma bad_url_rejected: "\<not> startswith bad_url LINKEDIN_PREFIX"
  by code_simp

lemma example_import_try:
  "linkedin_import_try (example_platform r) demo_url =
     (case re_search r of
        None \<Rightarrow> Inl (ValueError (str ''No valid JSON found in response''))
      | Some m \<Rightarrow>
          (case read_json m of
             None \<Rightarrow> Inl (External (str ''JSONDecodeError''))
           | Some v \<Rightarrow> validate_fields (\<lambda>c x. str ''interpreter message'') v))"
  by (simp add: linkedin_import_try_def demo_url_ok example_chain extract_json_def bind_def
      example_json_loads example_wording split: option.splits)

section \<open>The import adapter\<close>

lemma all_in_dict: "all_in wd fs (PyDict d) = Inr (set fs \<subseteq> fst ` set d)"
  by (induction fs) auto

lemma validate_fields_dict:
  "validate_fields wd (PyDict d) =
     (if set required_fields \<subseteq> fst ` set d then Inr (PyDict d)
      else Inl (ValueError (str ''Missing required fields in parsed data'')))"
  by (simp add: validate_fields_def all_in_dict bind_def)

lemma linkedin_import_resume_data: "resume_data (snd (linkedin_import pf url w)) = resume_data w"
  by (simp add: linkedin_import_def st_error_def split: sum.splits)

text \<open>
  Claim C1.  When the URL has the prefix and the chain returns a response, the import
  adapter scans the response with the greedy pattern.  If the scan finds a match, the
  match is what \<open>json.loads\<close> is applied to, and it is the brace-delimited substring
  that starts at the first opening brace of the response (no opening brace before it)
  and, the star being greedy, runs to the last closing brace (no closing brace after
  it).  If the scan finds nothing, the response has no opening brace followed by a
  closing one, and the adapter raises "No valid JSON found in response".
\<close>

theorem import_parses_greedy_brace_span:
  assumes "startswith url LINKEDIN_PREFIX"
    and "chain_invoke pf import_prompt [(str ''url'', PyStr url)] = Inr response"
  shows "case re_search response of
           None \<Rightarrow>
             linkedin_import_try pf url = Inl (ValueError (str ''No valid JSON found in response'')) \<and>
             (\<forall>pre body post. response \<noteq> pre @ 123 # body @ 125 # post)
         | Some json_str \<Rightarrow>
             linkedin_import_try pf url =
               bind (json_loads pf json_str) (validate_fields (wording pf)) \<and>
             (\<exists>pre body post. response = pre @ json_str @ post \<and> json_str = 123 # body @ [125] \<and>
                 123 \<notin> set pre \<and> 125 \<notin> set post)"
proof (cases "re_search response")
  case None
  then have "\<forall>pre body post. response \<noteq> pre @ 123 # body @ 125 # post"
    by (simp add: re_search_None_iff)
  with None assms show ?thesis
    by (simp add: linkedin_import_try_def extract_json_def bind_def)
next
  case (Some m)
  from re_search_Some [OF Some] obtain pre post where
    s: "response = pre @ m @ post" "123 \<notin> set pre" "125 \<notin> set post"
    and m: "hd m = 123" "last m = 125" "2 \<le> length m" by blast
  from brace_span_shape [OF m] obtain body where "m = 123 # body @ [125]" by blast
  with s have "\<exists>pre body post. response = pre @ m @ post \<and> m = 123 # body @ [125] \<and>
                 123 \<notin> set pre \<and> 125 \<notin> set post" by blast
  with Some assms show ?thesis
    by (simp add: linkedin_import_try_def extract_json_def bind_def)
qed

theorem import_parses_greedy_brace_span_witness:
  "startswith demo_url LINKEDIN_PREFIX \<and>
   chain_invoke (example_platform two_blocks_response) import_prompt [(str ''url'', PyStr demo_url)]
     = Inr two_blocks_response \<and>
   re_search two_blocks_response = Some (str ''{a} and {b}'') \<and>
   linkedin_import_try (example_platform two_blocks_response) demo_url =
     bind (json_loads (example_platform two_blocks_response) (str ''{a} and {b}''))
       (validate_fields (wording (example_platform two_blocks_response)))"
proof -
  have h1: "startswith demo_url LINKEDIN_PREFIX" by (rule demo_url_ok)
  have h2: "chain_invoke (example_platform two_blocks_response) import_prompt
              [(str ''url'', PyStr demo_url)] = Inr two_blocks_response" by (rule example_chain)
  have h3: "re_search two_blocks_response = Some (str ''{a} and {b}'')" by code_simp
  from import_parses_greedy_brace_span [OF h1 h2] h3
  have "linkedin_import_try (example_platform two_blocks_response) demo_url =
     bind (json_loads (example_platform two_blocks_response) (str ''{a} and {b}''))
       (validate_fields (wording (example_platform two_blocks_response)))" by simp
  with h1 h2 h3 show ?thesis by simp
qed

text \<open>
  Claim C2, as stated, fails: a response may contain a single well-formed JSON object
  with all four required keys and still be rejected.  Here the object is followed by
  a blank and a stray closing brace; the greedy match runs to that last brace, the
  matched text is no JSON, and the adapter returns the empty dictionary instead of
  the fields of the object.
\<close>

theorem import_single_object_counterexample:
  "startswith demo_url LINKEDIN_PREFIX \<and>
   chain_invoke (example_platform stray_brace_response) import_prompt [(str ''url'', PyStr demo_url)]
     = Inr (complete_profile_json @ str '' }'') \<and>
   json_loads (example_platform stray_brace_response) complete_profile_json
     = Inr (PyDict complete_profile) \<and>
   set required_fields \<subseteq> fst ` set complete_profile \<and>
   fst (linkedin_import (example_platform stray_brace_response) demo_url empty_world)
     = Inr (PyDict []) \<and>
   PyDict [] \<noteq> PyDict complete_profile"
proof -
  have h2: "chain_invoke (example_platform stray_brace_response) import_prompt
              [(str ''url'', PyStr demo_url)] = Inr (complete_profile_json @ str '' }'')"
    by (simp add: example_chain stray_brace_response_def)
  have h3: "read_json complete_profile_json = Some (PyDict complete_profile)" by code_simp
  have h4: "set required_fields \<subseteq> fst ` set complete_profile" by code_simp
  have h5: "re_search stray_brace_response = Some stray_brace_response" by code_simp
  have h6: "read_json stray_brace_response = None" by code_simp
  have h7: "PyDict [] \<noteq> PyDict complete_profile" by (simp add: complete_profile_def)
  from h5 h6 have "linkedin_import_try (example_platform stray_brace_response) demo_url
      = Inl (External (str ''JSONDecodeError''))"
    by (simp add: example_import_try)
  then have "fst (linkedin_import (example_platform stray_brace_response) demo_url empty_world)
      = Inr (PyDict [])"
    by (simp add: linkedin_import_def)
  with demo_url_ok h2 h3 h4 h7 show ?thesis by (simp add: example_json_loads)
qed

text \<open>
  Claim C2, amended.  When the URL has the prefix and the response consists of a text
  without opening brace, a brace-delimited text and a text without closing brace, and
  \<open>json.loads\<close> reads the brace-delimited text as an object that has all four
  required keys, then the import adapter returns exactly that object and shows no
  message.
\<close>

theorem import_returns_brace_span_object:
  assumes "startswith url LINKEDIN_PREFIX"
    and "chain_invoke pf import_prompt [(str ''url'', PyStr url)]
           = Inr (pre @ 123 # body @ 125 # post)"
    and "123 \<notin> set pre" and "125 \<notin> set post"
    and "json_loads pf (123 # body @ [125]) = Inr (PyDict d)"
    and "set required_fields \<subseteq> fst ` set d"
  shows "linkedin_import pf url w = (Inr (PyDict d), w)"
proof -
  from assms(3,4) have "re_search (pre @ 123 # body @ 125 # post) = Some (123 # body @ [125])"
    by (rule re_search_complete)
  with assms(1,2,5,6) have "linkedin_import_try pf url = Inr (PyDict d)"
    by (simp add: linkedin_import_try_def extract_json_def bind_def validate_fields_dict)
  then show ?thesis by (simp add: linkedin_import_def)
qed

theorem import_returns_brace_span_object_witness:
  "linkedin_import (example_platform framed_response) demo_url empty_world
     = (Inr (PyDict complete_profile), empty_world)"
proof -
  have shape: "complete_profile_json = 123 # tl (butlast complete_profile_json) @ [125]"
    by code_simp
  have h2: "chain_invoke (example_platform framed_response) import_prompt
              [(str ''url'', PyStr demo_url)]
            = Inr (str ''Profile: '' @ 123 # tl (butlast complete_profile_json) @ 125 # str '' Done.'')"
    using shape by (simp add: example_chain framed_response_def)
  have h3: "123 \<notin> set (str ''Profile: '')" by code_simp
  have h4: "125 \<notin> set (str '' Done.'')" by code_simp
  have "read_json complete_profile_json = Some (PyDict complete_profile)" by code_simp
  with shape have h5: "json_loads (example_platform framed_response)
              (123 # tl (butlast complete_profile_json) @ [125]) = Inr (PyDict complete_profile)"
    by (simp add: example_json_loads)
  have h6: "set required_fields \<subseteq> fst ` set complete_profile" by code_simp
  from import_returns_brace_span_object [OF demo_url_ok h2 h3 h4 h5 h6] show ?thesis .
qed

text \<open>
  Claim C3.  For a URL that does not start with the required prefix the import adapter
  returns the empty dictionary, no exception leaves it, and the only effect is the
  message "LinkedIn import error: Invalid LinkedIn profile URL format".
\<close>

theorem import_rejects_bad_prefix:
  assumes "\<not> startswith url LINKEDIN_PREFIX"
  shows "linkedin_import pf url w =
           (Inr (PyDict []),
            w\<lparr>ui := ui w @
                 [StError (str ''LinkedIn import error: Invalid LinkedIn profile URL format'')]\<rparr>)"
  using assms by (simp add: linkedin_import_def linkedin_import_try_def st_error_def str_def)

theorem import_rejects_bad_prefix_witness:
  "\<not> startswith bad_url LINKEDIN_PREFIX \<and>
   linkedin_import (example_platform complete_profile_json) bad_url empty_world =
     (Inr (PyDict []),
      empty_world\<lparr>ui := ui empty_world @
          [StError (str ''LinkedIn import error: Invalid LinkedIn profile URL format'')]\<rparr>)"
  using bad_url_rejected import_rejects_bad_prefix [OF bad_url_rejected] by simp

text \<open>
  Claim C4.  When the text matched in the response is read by \<open>json.loads\<close> as an
  object that lacks at least one of the keys name, experience, education and skills,
  the import adapter returns the empty dictionary (and reports "Missing required fields
  in parsed data").
\<close>

theorem import_rejects_missing_field:
  assumes "startswith url LINKEDIN_PREFIX"
    and "chain_invoke pf import_prompt [(str ''url'', PyStr url)] = Inr response"
    and "re_search response = Some json_str"
    and "json_loads pf json_str = Inr (PyDict d)"
    and "\<not> set required_fields \<subseteq> fst ` set d"
  shows "linkedin_import pf url w =
           (Inr (PyDict []),
            w\<lparr>ui := ui w @
                 [StError (str ''LinkedIn import error: Missing required fields in parsed data'')]\<rparr>)"
proof -
  from assms have "linkedin_import_try pf url =
      Inl (ValueError (str ''Missing required fields in parsed data''))"
    by (simp add: linkedin_import_try_def extract_json_def bind_def validate_fields_dict)
  then show ?thesis by (simp add: linkedin_import_def st_error_def str_def)
qed

theorem import_rejects_missing_field_witness:
  "linkedin_import (example_platform partial_profile_json) demo_url empty_world =
     (Inr (PyDict []),
      empty_world\<lparr>ui := ui empty_world @
          [StError (str ''LinkedIn import error: Missing required fields in parsed data'')]\<rparr>)"
proof -
  have h2: "chain_invoke (example_platform partial_profile_json) import_prompt
              [(str ''url'', PyStr demo_url)] = Inr partial_profile_json" by (rule example_chain)
  have h3: "re_search partial_profile_json = Some partial_profile_json" by code_simp
  have "read_json partial_profile_json = Some (PyDict [(str ''name'', PyStr (str ''Ada''))])"
    by code_simp
  then have h4: "json_loads (example_platform partial_profile_json) partial_profile_json
            = Inr (PyDict [(str ''name'', PyStr (str ''Ada''))])"
    by (simp add: example_json_loads)
  have h5: "\<not> set required_fields \<subseteq> fst ` set [(str ''name'', PyStr (str ''Ada''))]"
    by code_simp
  from import_rejects_missing_field [OF demo_url_ok h2 h3 h4 h5] show ?thesis .
qed

section \<open>The Import Profile action\<close>

text \<open>
  Claim C8.  When the import adapter returns the empty dictionary, the Import Profile
  action leaves \<open>resume_data\<close>, and with it every resume field, as it was.
\<close>

theorem failed_import_keeps_resume_data:
  assumes "fst (linkedin_import pf url w) = Inr (PyDict [])"
  shows "resume_data (import_profile pf url w) = resume_data w"
proof (cases "url = []")
  case True
  then show ?thesis by (simp add: import_profile_def)
next
  case False
  obtain r w1 where lw: "linkedin_import pf url w = (r, w1)"
    by (cases "linkedin_import pf url w")
  with assms have r: "r = Inr (PyDict [])" by simp
  from lw have "resume_data w1 = resume_data w"
    using linkedin_import_resume_data [of pf url w] by simp
  with False lw r show ?thesis by (simp add: import_profile_def st_success_def)
qed

theorem failed_import_keeps_resume_data_witness:
  "fst (linkedin_import (example_platform complete_profile_json) bad_url stored_world)
     = Inr (PyDict []) \<and>
   resume_data (import_profile (example_platform complete_profile_json) bad_url stored_world)
     = [(str ''email'', PyStr (str ''ada@example.org''))]"
proof -
  have h: "fst (linkedin_import (example_platform complete_profile_json) bad_url stored_world)
     = Inr (PyDict [])"
    using bad_url_rejected by (simp add: linkedin_import_def linkedin_import_try_def)
  from h failed_import_keeps_resume_data [OF h] show ?thesis
    by (simp add: stored_world_def)
qed

text \<open>
  Claim C10, as stated, fails: the adapter can return without raising and yet no
  success message appears.  Here the model answers with an object whose skills are
  \<open>null\<close>; the adapter returns it, joining the skills raises \<open>TypeError\<close>, and the
  action shows "Failed to process LinkedIn profile: ..." and nothing else.
\<close>

theorem success_message_counterexample:
  "demo_url \<noteq> [] \<and>
   fst (linkedin_import (example_platform null_skills_json) demo_url empty_world) =
     Inr (PyDict null_skills_profile) \<and>
   ui (import_profile (example_platform null_skills_json) demo_url empty_world) =
     [StError (import_failed_msg (TypeError (str ''interpreter message'')))] \<and>
   StSuccess import_ok_msg \<notin>
     set (ui (import_profile (example_platform null_skills_json) demo_url empty_world))"
proof -
  have h1: "demo_url \<noteq> []" by code_simp
  have h2: "re_search null_skills_json = Some null_skills_json" by code_simp
  have h3: "read_json null_skills_json = Some (PyDict null_skills_profile)" by code_simp
  have h4: "set required_fields \<subseteq> fst ` set null_skills_profile" by code_simp
  have h5: "py_truthy (PyDict null_skills_profile)" by (simp add: null_skills_profile_def)
  have h6: "profile_update (\<lambda>c x. str ''interpreter message'') (PyDict null_skills_profile)
              = Inl (TypeError (str ''interpreter message''))" by code_simp
  from h2 h3 h4 have "linkedin_import_try (example_platform null_skills_json) demo_url
      = Inr (PyDict null_skills_profile)"
    by (simp add: example_import_try validate_fields_dict)
  then have li: "linkedin_import (example_platform null_skills_json) demo_url empty_world
      = (Inr (PyDict null_skills_profile), empty_world)"
    by (simp add: linkedin_import_def)
  with h1 h5 h6 have "import_profile (example_platform null_skills_json) demo_url empty_world
      = st_error (import_failed_msg (TypeError (str ''interpreter message''))) empty_world"
    by (simp add: import_profile_def example_wording)
  then have "ui (import_profile (example_platform null_skills_json) demo_url empty_world) =
     [StError (import_failed_msg (TypeError (str ''interpreter message'')))]"
    by (simp add: st_error_def empty_world_def)
  with h1 li show ?thesis by simp
qed

text \<open>
  Claim C10, amended.  For a non-empty URL, when the import adapter returns an object:
  if the object is empty (the import failed) the success message is shown; if it is
  not empty and its values can be flattened into the resume fields, the fields are
  updated and the success message is shown; if flattening raises, the message
  "Failed to process LinkedIn profile: ..." is shown instead and nothing is updated.
\<close>

theorem import_profile_messages:
  assumes "linkedin_url \<noteq> []"
    and "linkedin_import pf linkedin_url w = (Inr imported_data, w1)"
  shows "(\<not> py_truthy imported_data \<longrightarrow>
            import_profile pf linkedin_url w = w1\<lparr>ui := ui w1 @ [StSuccess import_ok_msg]\<rparr>) \<and>
         (\<forall>u. py_truthy imported_data \<and> profile_update (wording pf) imported_data = Inr u \<longrightarrow>
            import_profile pf linkedin_url w =
              w1\<lparr>resume_data := dict_update (resume_data w1) u,
                 ui := ui w1 @ [StSuccess import_ok_msg]\<rparr>) \<and>
         (\<forall>e. py_truthy imported_data \<and> profile_update (wording pf) imported_data = Inl e \<longrightarrow>
            import_profile pf linkedin_url w =
              w1\<lparr>ui := ui w1 @ [StError (import_failed_msg e)]\<rparr>)"
  using assms by (simp add: import_profile_def st_success_def st_error_def)

theorem import_profile_messages_witness:
  "ui (import_profile (example_platform partial_profile_json) demo_url empty_world) =
     [StError (str ''LinkedIn import error: Missing required fields in parsed data''),
      StSuccess import_ok_msg]"
proof -
  have h1: "demo_url \<noteq> []" by code_simp
  have h2: "re_search partial_profile_json = Some partial_profile_json" by code_simp
  have h3: "read_json partial_profile_json = Some (PyDict [(str ''name'', PyStr (str ''Ada''))])"
    by code_simp
  have h4: "\<not> set required_fields \<subseteq> fst ` set [(str ''name'', PyStr (str ''Ada''))]"
    by code_simp
  from h2 h3 h4 have "linkedin_import_try (example_platform partial_profile_json) demo_url
      = Inl (ValueError (str ''Missing required fields in parsed data''))"
    by (simp add: example_import_try validate_fields_dict)
  then have li: "linkedin_import (example_platform partial_profile_json) demo_url empty_world
      = (Inr (PyDict []),
         st_error (str ''LinkedIn import error: Missing required fields in parsed data'') empty_world)"
    by (simp add: linkedin_import_def str_def)
  from import_profile_messages [OF h1 li] show ?thesis
    by (simp add: st_error_def empty_world_def)
qed

section \<open>The localized prompt\<close>

text \<open>
  Claim C5.  For each of the five languages of \<open>LANGUAGES\<close>, every template and
  every context, \<open>generate_localized_content\<close> hands the prompt formatter the template
  followed by the directive of that language (a blank, a newline and "Respond in ...
  language"), with the language added to the context; the formatted prompt goes to
  the endpoint, and the text the endpoint returns is the result, unchanged.  An
  exception of the formatter or of the endpoint leaves the function as it is.
\<close>

theorem localized_prompt_carries_directive:
  assumes "language \<in> set LANGUAGES"
  shows "generate_localized_content pf prompt_template language context =
           (case prompt_format pf
                   [(str ''human'',
                     prompt_template @ str '' '' @ [10] @ str ''Respond in '' @ language @ str '' language'')]
                   (dict_set context (str ''language'') (PyStr language)) of
              Inl e \<Rightarrow> Inl e
            | Inr prompt \<Rightarrow> endpoint pf prompt) \<and>
         str '' '' @ [10] @ str ''Respond in '' @ language @ str '' language'' \<in>
           {str '' '' @ [10] @ str ''Respond in English language'',
            str '' '' @ [10] @ str ''Respond in Spanish language'',
            str '' '' @ [10] @ str ''Respond in French language'',
            str '' '' @ [10] @ str ''Respond in German language'',
            str '' '' @ [10] @ str ''Respond in Chinese language''}"
proof
  show "generate_localized_content pf prompt_template language context =
           (case prompt_format pf
                   [(str ''human'',
                     prompt_template @ str '' '' @ [10] @ str ''Respond in '' @ language @ str '' language'')]
                   (dict_set context (str ''language'') (PyStr language)) of
              Inl e \<Rightarrow> Inl e
            | Inr prompt \<Rightarrow> endpoint pf prompt)"
    by (simp add: generate_localized_content_def chain_invoke_def localized_prompt_def bind_def)
  from assms have "language = str ''English'' \<or> language = str ''Spanish'' \<or>
      language = str ''French'' \<or> language = str ''German'' \<or> language = str ''Chinese''"
    by (simp add: LANGUAGES_def)
  then show "str '' '' @ [10] @ str ''Respond in '' @ language @ str '' language'' \<in>
           {str '' '' @ [10] @ str ''Respond in English language'',
            str '' '' @ [10] @ str ''Respond in Spanish language'',
            str '' '' @ [10] @ str ''Respond in French language'',
            str '' '' @ [10] @ str ''Respond in German language'',
            str '' '' @ [10] @ str ''Respond in Chinese language''}"
    by (auto simp: str_def)
qed

theorem localized_prompt_carries_directive_witness:
  "str ''French'' \<in> set LANGUAGES \<and>
   prompt_format (example_platform (str ''Bonjour''))
     [(str ''human'', str ''Hi {x}'' @ str '' '' @ [10] @ str ''Respond in '' @ str ''French'' @ str '' language'')]
     (dict_set [(str ''x'', PyStr (str ''Ada''))] (str ''language'') (PyStr (str ''French'')))
     = Inr [(str ''human'', str ''Hi Ada '' @ [10] @ str ''Respond in French language'')] \<and>
   generate_localized_content (example_platform (str ''Bonjour'')) (str ''Hi {x}'') (str ''French'')
     [(str ''x'', PyStr (str ''Ada''))] = Inr (str ''Bonjour'')"
proof -
  have h: "str ''French'' \<in> set LANGUAGES" by code_simp
  have f: "format_messages
     [(str ''human'', str ''Hi {x}'' @ str '' '' @ [10] @ str ''Respond in '' @ str ''French'' @ str '' language'')]
     (dict_set [(str ''x'', PyStr (str ''Ada''))] (str ''language'') (PyStr (str ''French'')))
     = Inr [(str ''human'', str ''Hi Ada '' @ [10] @ str ''Respond in French language'')]"
    by code_simp
  from localized_prompt_carries_directive [OF h, of "example_platform (str ''Bonjour'')" "str ''Hi {x}''"
      "[(str ''x'', PyStr (str ''Ada''))]"] f h
  show ?thesis by (simp add: example_platform_def)
qed

section \<open>The export writer\<close>

lemma translate_newlines_posix: "translate_newlines [10] s = s"
  by (induction s) (simp_all add: translate_newlines_def)

lemma translate_newlines_no_newline: "10 \<notin> set s \<Longrightarrow> translate_newlines sep s = s"
  by (induction s) (simp_all add: translate_newlines_def)

lemma txt_is_text_format: "str ''txt'' \<noteq> str ''pdf'' \<and> str ''txt'' \<noteq> str ''docx''"
  by (simp add: str_def)

lemma write_export_text:
  "format_type \<noteq> str ''pdf'' \<Longrightarrow> format_type \<noteq> str ''docx'' \<Longrightarrow>
   write_export pf content format_type temp_path w = write_text pf temp_path content w"
  by (simp add: write_export_def)

lemma write_text_ok:
  assumes "io_error pf (OpenWrite path) = None" and "io_error pf (WriteText path) = None"
    and "utf8_encode (translate_newlines (linesep pf) content) = Some bs"
  shows "write_text pf path content w = (Inr (), w\<lparr>files := (files w)(path \<mapsto> bs)\<rparr>)"
  using assms by (simp add: write_text_def)

lemma export_data_text_ok:
  assumes "format_type \<noteq> str ''pdf''" and "format_type \<noteq> str ''docx''"
    and "io_error pf (OpenWrite path) = None" and "io_error pf (WriteText path) = None"
    and "io_error pf (OpenRead path) = None"
    and "utf8_encode (translate_newlines (linesep pf) content) = Some bs"
  shows "export_data pf content format_type path w =
           (Inr bs, w\<lparr>files := (files w)(path \<mapsto> bs)\<rparr>)"
  using assms by (simp add: export_data_def write_export_text write_text_ok read_back_def)

lemma export_data_text:
  assumes "format_type \<noteq> str ''pdf''" and "format_type \<noteq> str ''docx''"
    and "io_error pf (OpenWrite path) = None" and "io_error pf (WriteText path) = None"
    and "io_error pf (OpenRead path) = None"
  shows "export_data pf content format_type path w =
           (case utf8_encode (translate_newlines (linesep pf) content) of
              None \<Rightarrow> (Inl (UnicodeEncodeError (wording pf NotEncodable (PyStr content))),
                        w\<lparr>files := (files w)(path \<mapsto> [])\<rparr>)
            | Some bs \<Rightarrow> (Inr bs, w\<lparr>files := (files w)(path \<mapsto> bs)\<rparr>))"
  using assms
  by (simp add: export_data_def write_export_text write_text_def read_back_def split: option.splits)

lemma example_io: "io_error (example_platform r) op = None"
  by (simp add: example_platform_def)

lemma windows_io: "io_error (windows_platform r) op = None"
  by (simp add: windows_platform_def example_platform_def)


text \<open>
  Claim C6, as stated, fails: on a platform whose line separator is not the newline
  character the bytes read back differ from the UTF-8 encoding of the content.  On
  the Windows platform the text a, newline, b is written as the four bytes
  61 0D 0A 62 and read back so, while its UTF-8 encoding is 61 0A 62.
\<close>

theorem txt_round_trip_counterexample:
  "fst (export_data (windows_platform []) (str ''a'' @ [10] @ str ''b'') (str ''txt'')
          windows_temp_path empty_world) = Inr [97, 13, 10, 98] \<and>
   utf8_encode (str ''a'' @ [10] @ str ''b'') = Some [97, 10, 98]"
proof -
  have "linesep (windows_platform []) = [13, 10]"
    by (simp add: windows_platform_def example_platform_def)
  then have "utf8_encode (translate_newlines (linesep (windows_platform []))
               (str ''a'' @ [10] @ str ''b'')) = Some [97, 13, 10, 98]"
    by (simp add: translate_newlines_def str_def utf8_char_def)
  moreover have "utf8_encode (str ''a'' @ [10] @ str ''b'') = Some [97, 10, 98]"
    by (simp add: str_def utf8_char_def)
  ultimately show ?thesis
    using txt_is_text_format by (simp add: export_data_text windows_io)
qed

text \<open>
  Claim C6, amended.  For a content that UTF-8 can encode (no surrogate code point),
  on a platform whose line separator is the newline character, or for a content
  without newline character, when opening, writing and reading the file succeed, the
  bytes read back from the TXT export are exactly the UTF-8 encoding of the content.
\<close>

theorem txt_round_trip:
  assumes "io_error pf (OpenWrite path) = None" and "io_error pf (WriteText path) = None"
    and "io_error pf (OpenRead path) = None"
    and "utf8_encode content = Some bs"
    and "linesep pf = [10] \<or> 10 \<notin> set content"
  shows "export_data pf content (str ''txt'') path w =
           (Inr bs, w\<lparr>files := (files w)(path \<mapsto> bs)\<rparr>)"
proof -
  from assms(5) have "translate_newlines (linesep pf) content = content"
    by (auto simp: translate_newlines_posix translate_newlines_no_newline)
  with assms(4) have "utf8_encode (translate_newlines (linesep pf) content) = Some bs" by simp
  with assms(1-3) txt_is_text_format show ?thesis by (simp add: export_data_text_ok)
qed

theorem txt_round_trip_witness:
  "fst (export_data (example_platform []) [233, 10, 8364] (str ''txt'') (str ''/tmp/resume.txt'')
          empty_world) = Inr [195, 169, 10, 226, 130, 172] \<and>
   utf8_encode [233, 10, 8364] = Some [195, 169, 10, 226, 130, 172]"
proof -
  have h4: "utf8_encode [233, 10, 8364] = Some [195, 169, 10, 226, 130, 172]"
    by (simp add: utf8_char_def)
  have h5: "linesep (example_platform []) = [10] \<or> 10 \<notin> set [233, 10, 8364::nat]"
    by (simp add: example_platform_def)
  from txt_round_trip [OF example_io example_io example_io h4 h5, of "str ''/tmp/resume.txt''" empty_world] h4
  show ?thesis by simp
qed

lemma st_error_files: "files (st_error m w) = files w"
  by (simp add: st_error_def)









end
